theory Spec2Isabelle
  imports Complex_Main "HOL-Library.Word" "HOL-Library.Sublist"
begin

section \<open>The artifact-derived sync strategy: \<open>MavenArtifactSyncer\<close>\<close>

subsection \<open>Data\<close>

text \<open>
  Go errors. \<open>Errorf fmt arg\<close> is \<open>errors.Errorf(fmt, arg)\<close>, \<open>Wrapf e fmt out\<close> is
  \<open>errors.Wrapf(e, fmt, out)\<close>; \<open>Extern\<close> is an error value produced outside the syncer
  (by the registry client, a child process or the operating system). A Go \<open>error\<close> that
  may be \<open>nil\<close> is an \<open>error option\<close>.
\<close>

datatype error =
    Extern string
  | Errorf string string
  | Wrapf error string string

text \<open>\<open>context.Context\<close> is opaque to the syncer: it is only handed on.\<close>

type_synonym Context = nat

text \<open>
  \<open>*vcs.URL\<close> and \<open>*schema.MavenConnection\<close> are pointers: \<open>None\<close> is \<open>nil\<close>. Of the URL
  the syncer reads \<open>Path\<close> only.
\<close>

record vcs_URL =
  Scheme :: string
  Host :: string
  Path :: string

record MavenConnection =
  Repositories :: "string list"

record MavenArtifactSyncer =
  Config :: "MavenConnection option"

text \<open>
  \<open>exec.Cmd\<close> as \<open>exec.CommandContext\<close> builds it: the context, the program with its
  arguments, the working directory and the additions to the environment.
\<close>

record Cmd =
  cmd_ctx :: Context
  Args :: "string list"
  Dir :: string
  Env :: "string list"

definition CommandContext :: "Context \<Rightarrow> string \<Rightarrow> string list \<Rightarrow> Cmd" where
  "CommandContext ctx name args = \<lparr>cmd_ctx = ctx, Args = name # args, Dir = [], Env = []\<rparr>"

record lsifJavaJson =
  Kind :: string
  Jvm :: string
  Dependencies :: "string list"

text \<open>
  The part of the machine the syncer acts on: the state of the registry client (coursier
  and its cache), the local files by path, and the child processes run so far, oldest
  first.
\<close>

type_synonym files = "string \<rightharpoonup> string"

record world =
  registry :: "string list"
  files :: files
  executed :: "Cmd list"

text \<open>
  What the syncer calls and its source file does not define, taken as parameters: the
  path decomposition of package \<open>reposource\<close>, the registry client
  \<open>coursier.FetchSources\<close> (it is given the context, the connection and the dependency,
  never a repository directory), the process runner \<open>runWith\<close> of package \<open>server\<close>
  (always called with \<open>false\<close> and \<open>nil\<close> for its last two arguments), the methods
  \<open>Path\<close> and \<open>Set\<close> of \<open>GitDir\<close>, \<open>filepath.Dir\<close>, \<open>json.Marshal\<close>, and the
  conditions under which \<open>os.Create\<close> and \<open>File.Write\<close> fail. A failing write reports
  how many bytes it wrote. The calls of the logger \<open>log15\<close> are left out.
\<close>

record env =
  DecomposeMavenPath :: "string \<Rightarrow> string"
  FetchSources :: "Context \<Rightarrow> MavenConnection option \<Rightarrow> string \<Rightarrow> string list
                     \<Rightarrow> (string list \<times> error option) \<times> string list"
  runWith :: "Context \<Rightarrow> Cmd \<Rightarrow> files \<Rightarrow> (string \<times> error option) \<times> files"
  GitDir_Path :: "string \<Rightarrow> string \<Rightarrow> string"
  GitDir_Set :: "string \<Rightarrow> Cmd \<Rightarrow> Cmd"
  filepath_Dir :: "string \<Rightarrow> string"
  json_Marshal :: "lsifJavaJson \<Rightarrow> string \<times> error option"
  os_Create_err :: "string \<Rightarrow> files \<Rightarrow> error option"
  file_Write_err :: "string \<Rightarrow> string \<Rightarrow> files \<Rightarrow> (nat \<times> error) option"

text \<open>A nil-pointer dereference panics; everything else returns.\<close>

datatype 'a outcome = Panic | Return 'a

subsection \<open>Operations\<close>

definition Type :: "MavenArtifactSyncer \<Rightarrow> string" where
  "Type s = ''maven''"

text \<open>Running a child process: the runner acts on the files, and the run is recorded.\<close>

definition run :: "env \<Rightarrow> Context \<Rightarrow> Cmd \<Rightarrow> world \<Rightarrow> (string \<times> error option) \<times> world" where
  "run E ctx cmd w =
     (case runWith E ctx cmd (files w) of
        (res, fs) \<Rightarrow> (res, w\<lparr>files := fs, executed := executed w @ [cmd]\<rparr>))"

text \<open>\<open>os.Create\<close> creates the file or truncates it; on failure nothing changes.\<close>

definition os_Create :: "env \<Rightarrow> string \<Rightarrow> world \<Rightarrow> error option \<times> world" where
  "os_Create E p w =
     (case os_Create_err E p (files w) of
        Some e \<Rightarrow> (Some e, w)
      | None \<Rightarrow> (None, w\<lparr>files := (files w)(p \<mapsto> [])\<rparr>))"

text \<open>
  \<open>File.Write\<close> on the file just created, at offset 0: all bytes on success, the first
  \<open>n\<close> of them when it fails after \<open>n\<close>.
\<close>

definition file_Write :: "env \<Rightarrow> string \<Rightarrow> string \<Rightarrow> world \<Rightarrow> error option \<times> world" where
  "file_Write E p b w =
     (case file_Write_err E p b (files w) of
        Some (n, e) \<Rightarrow> (Some e, w\<lparr>files := (files w)(p \<mapsto> take n b)\<rparr>)
      | None \<Rightarrow> (None, w\<lparr>files := (files w)(p \<mapsto> b)\<rparr>))"

text \<open>The query of the registry: only the registry client's state may change.\<close>

definition fetch :: "env \<Rightarrow> Context \<Rightarrow> MavenConnection option \<Rightarrow> string \<Rightarrow> world
    \<Rightarrow> (string list \<times> error option) \<times> world" where
  "fetch E ctx cfg dependency w =
     (case FetchSources E ctx cfg dependency (registry w) of
        (res, r) \<Rightarrow> (res, w\<lparr>registry := r\<rparr>))"

definition IsCloneable :: "env \<Rightarrow> MavenArtifactSyncer \<Rightarrow> Context \<Rightarrow> vcs_URL option \<Rightarrow> world
    \<Rightarrow> error option outcome \<times> world" where
  "IsCloneable E s ctx remoteURL w =
     (case remoteURL of
        None \<Rightarrow> (Panic, w)
      | Some u \<Rightarrow>
          (let dependency = DecomposeMavenPath E (Path u) in
           case fetch E ctx (Config s) dependency w of
             ((sources, err), w1) \<Rightarrow>
               if err \<noteq> None then (Return err, w1)
               else if length sources = 0
                 then (Return (Some (Errorf ''no sources.jar for dependency %s'' dependency)), w1)
               else (Return None, w1)))"

text \<open>The four child processes of a materialization, as the code builds them.\<close>

definition initCmd :: "env \<Rightarrow> Context \<Rightarrow> string \<Rightarrow> Cmd" where
  "initCmd E ctx tmpPath = (CommandContext ctx ''git'' [''init''])\<lparr>Dir := filepath_Dir E tmpPath\<rparr>"

definition unzipCmd :: "env \<Rightarrow> Context \<Rightarrow> string \<Rightarrow> string \<Rightarrow> string \<Rightarrow> Cmd" where
  "unzipCmd E ctx dir workingDir path =
     GitDir_Set E dir (CommandContext ctx ''unzip'' [path, ''-d'', workingDir])"

definition addCmd :: "env \<Rightarrow> Context \<Rightarrow> string \<Rightarrow> Cmd" where
  "addCmd E ctx dir = GitDir_Set E dir (CommandContext ctx ''git'' [''add'', ''.''])"

definition commitCmd :: "env \<Rightarrow> Context \<Rightarrow> string \<Rightarrow> string \<Rightarrow> Cmd" where
  "commitCmd E ctx dir dependency =
     GitDir_Set E dir (CommandContext ctx ''git'' [''commit'', ''-m'', dependency])"

definition commitJar :: "env \<Rightarrow> MavenArtifactSyncer \<Rightarrow> Context \<Rightarrow> string \<Rightarrow> string \<Rightarrow> string
    \<Rightarrow> string \<Rightarrow> world \<Rightarrow> error option \<times> world" where
  "commitJar E s ctx dir workingDir dependency path w =
     (case run E ctx (unzipCmd E ctx dir workingDir path) w of
        ((output, Some err), w1) \<Rightarrow> (Some (Wrapf err ''failed to unzip with output %q'' output), w1)
      | ((output, None), w1) \<Rightarrow>
     (case os_Create E (GitDir_Path E dir ''lsif-java.json'') w1 of
        (Some err, w2) \<Rightarrow> (Some err, w2)
      | (None, w2) \<Rightarrow>
     (case json_Marshal E \<lparr>Kind = ''maven'', Jvm = ''8'', Dependencies = [dependency]\<rparr> of
        (jsonContents, Some err) \<Rightarrow> (Some err, w2)
      | (jsonContents, None) \<Rightarrow>
     (case file_Write E (GitDir_Path E dir ''lsif-java.json'') jsonContents w2 of
        (Some err, w3) \<Rightarrow> (Some err, w3)
      | (None, w3) \<Rightarrow>
     (case run E ctx (addCmd E ctx dir) w3 of
        ((output, Some err), w4) \<Rightarrow> (Some (Wrapf err ''failed to git add with output %q'' output), w4)
      | ((output, None), w4) \<Rightarrow>
     (case run E ctx (commitCmd E ctx dir dependency) w4 of
        ((output, Some err), w5) \<Rightarrow>
          (Some (Wrapf err ''failed to git commit with output %q'' output), w5)
      | ((output, None), w5) \<Rightarrow> (None, w5)))))))"

definition CloneCommand :: "env \<Rightarrow> MavenArtifactSyncer \<Rightarrow> Context \<Rightarrow> vcs_URL option \<Rightarrow> string
    \<Rightarrow> world \<Rightarrow> (Cmd option \<times> error option) outcome \<times> world" where
  "CloneCommand E s ctx remoteURL tmpPath w =
     (case remoteURL of
        None \<Rightarrow> (Panic, w)
      | Some u \<Rightarrow>
          (let dependency = DecomposeMavenPath E (Path u) in
           case fetch E ctx (Config s) dependency w of
             ((paths, err), w1) \<Rightarrow>
               if err \<noteq> None then (Return (None, err), w1)
               else if length paths = 0
                 then (Return (None, Some (Errorf ''no sources.jar for dependency %s'' dependency)), w1)
               else
                 (let path = paths ! 0;
                      workingDir = filepath_Dir E tmpPath
                  in case run E ctx (initCmd E ctx tmpPath) w1 of
                       ((output, Some err), w2) \<Rightarrow>
                         (Return (None,
                            Some (Wrapf err ''failed to init git repository with output %q'' output)), w2)
                     | ((output, None), w2) \<Rightarrow>
                         (case commitJar E s ctx tmpPath workingDir dependency path w2 of
                            (err, w3) \<Rightarrow>
                              (Return (Some (CommandContext ctx ''git'' [''--version'']), err), w3)))))"

text \<open>\<open>Fetch\<close> ignores all of its arguments and returns \<open>nil\<close>.\<close>

definition Fetch :: "MavenArtifactSyncer \<Rightarrow> Context \<Rightarrow> vcs_URL option \<Rightarrow> string \<Rightarrow> world
    \<Rightarrow> error option \<times> world" where
  "Fetch s ctx remoteURL dir w = (None, w)"

definition RemoteShowCommand :: "MavenArtifactSyncer \<Rightarrow> Context \<Rightarrow> vcs_URL option \<Rightarrow> world
    \<Rightarrow> (Cmd option \<times> error option) \<times> world" where
  "RemoteShowCommand s ctx remoteURL w =
     ((Some (CommandContext ctx ''git'' [''remote'', ''show'', ''./'']), None), w)"

section \<open>Observability: the metrics of package \<open>repos\<close>\<close>

subsection \<open>Counters\<close>

record CounterOpts =
  Name :: string
  Help :: string

definition purgeSuccess :: CounterOpts where
  "purgeSuccess =
     \<lparr>Name = ''src_repoupdater_purge_success'',
      Help = ''Incremented each time we remove a repository clone.''\<rparr>"

definition purgeFailed :: CounterOpts where
  "purgeFailed =
     \<lparr>Name = ''src_repoupdater_purge_failed'',
      Help = ''Incremented each time we try and fail to remove a repository clone.''\<rparr>"

text \<open>
  The values of the process's counters, by metric name. A counter only grows: the one
  operation used on these two is \<open>Inc\<close>.
\<close>

type_synonym counters = "string \<Rightarrow> nat"

definition Inc :: "CounterOpts \<Rightarrow> counters \<Rightarrow> counters" where
  "Inc c m = m(Name c := m (Name c) + 1)"

subsection \<open>Gauges computed from the database\<close>

text \<open>
  \<open>db.QueryRowContext(context.Background(), sql)\<close> gives a row, and \<open>row.Scan(&v)\<close> stores
  into \<open>v\<close> and returns an error or nil. What \<open>Scan\<close> does depends on the type of \<open>v\<close>:
  a row is modelled by the outcome of scanning it into an \<open>int64\<close> and into a
  \<open>sql.NullFloat64\<close>. A failed query, no rows, and a NULL scanned into an \<open>int64\<close> are all
  errors of \<open>Scan\<close>; a NULL scanned into a \<open>NullFloat64\<close> is \<open>Valid = false\<close> without an
  error. The database is the function from query text to row. \<open>float64\<close> values are
  reals; the conversion \<open>float64(count)\<close> is taken as exact (it rounds above \<open>2^53\<close>).
\<close>

record NullFloat64 =
  Float64 :: real
  Valid :: bool

record Row =
  Scan_int64 :: "64 word \<times> error option"
  Scan_NullFloat64 :: "NullFloat64 \<times> error option"

type_synonym DB = "string \<Rightarrow> Row"

definition scanCount :: "DB \<Rightarrow> string \<Rightarrow> real \<times> error option" where
  "scanCount db sql =
     (let row = db sql in
      case Scan_int64 row of
        (count, err) \<Rightarrow> if err \<noteq> None then (0, err) else (real_of_int (sint count), None))"

definition scanNullFloat :: "DB \<Rightarrow> string \<Rightarrow> NullFloat64 \<times> error option" where
  "scanNullFloat db q =
     (let row = db q in
      case Scan_NullFloat64 row of (v, err) \<Rightarrow> (v, err))"

text \<open>
  The six counting gauges are the same closure but for the query (and the message
  logged on failure, which is not modelled); so are the two nullable ones.
\<close>

definition count_gauge :: "string \<Rightarrow> DB \<Rightarrow> real" where
  "count_gauge sql db =
     (case scanCount db sql of
        (count, err) \<Rightarrow> if err \<noteq> None then 0 else count)"

definition null_float_gauge :: "string \<Rightarrow> DB \<Rightarrow> real" where
  "null_float_gauge q db =
     (case scanNullFloat db q of
        (v, err) \<Rightarrow>
          if err \<noteq> None then 0
          else if \<not> Valid v then 0
          else Float64 v)"

text \<open>The query texts, character for character.\<close>

definition sql_external_services_total :: string where
  \<open>sql_external_services_total =
     ''
-- source: internal/repos/metrics.go:src_repoupdater_external_services_total
SELECT COUNT(''
     @ ''*) FROM external_services
WHERE deleted_at IS NULL
''\<close>

definition sql_user_external_services_total :: string where
  \<open>sql_user_external_services_total =
     ''
-- source: internal/repos/metrics.go:src_repoupdater_user_external_services_total
SELECT COUNT(''
     @ ''*) FROM external_services
WHERE namespace_user_id IS NOT NULL
AND deleted_at IS NULL
''\<close>

definition sql_user_repos_total :: string where
  \<open>sql_user_repos_total =
     ''
-- source: internal/repos/metrics.go:src_repoupdater_user_repos_total
SELECT COUNT(''
     @ ''*)
FROM external_service_repos esr
JOIN external_services es ON (
  es.id = esr.external_service_id AND
  es.namespace_user_id IS NOT NULL AND
  es.deleted_at IS NULL
)
JOIN repo ON (
  repo.id = esr.repo_id AND
  repo.deleted_at IS NULL
)''\<close>

definition sql_user_with_external_services_total :: string where
  \<open>sql_user_with_external_services_total =
     ''
-- source: internal/repos/metrics.go:src_repoupdater_user_with_external_services_total
SELECT COUNT(DISTINCT(namespace_user_id)) AS total
FROM external_services
WHERE namespace_user_id IS NOT NULL
AND deleted_at IS NULL
''\<close>

definition sql_queued_sync_jobs_total :: string where
  \<open>sql_queued_sync_jobs_total =
     ''
-- source: internal/repos/metrics.go:src_repoupdater_queued_sync_jobs_total
SELECT COUNT(''
     @ ''*) FROM external_service_sync_jobs WHERE state = 'queued'
''\<close>

definition sql_completed_sync_jobs_total :: string where
  \<open>sql_completed_sync_jobs_total =
     ''
-- source: internal/repos/metrics.go:src_repoupdater_completed_sync_jobs_total
SELECT COUNT(''
     @ ''*) FROM external_service_sync_jobs WHERE state = 'completed'
''\<close>

definition sql_errored_sync_jobs_percentage :: string where
  \<open>sql_errored_sync_jobs_percentage =
     ''
with latest_state as (
    -- Get the most recent state per external service
    select distinct on (external_service_id) external_service_id, state
    from external_service_sync_jobs
    order by external_service_id, finished_at desc
)
select round((select cast(count(''
     @ ''*) as float) from latest_state where state = 'errored') /
             (select cast(count(''
     @ ''*) as float) from latest_state) * 100)
''\<close>

definition backoffQuery_base :: string where
  \<open>backoffQuery_base =
     ''
-- source: internal/repos/metrics.go:src_repoupdater_errored_sync_jobs_total
SELECT extract(epoch from max(now() - last_sync_at)) FROM external_services
WHERE deleted_at IS NULL
AND NOT cloud_default
AND last_sync_at IS NOT NULL
''\<close>

definition backoffQuery :: "bool \<Rightarrow> string" where
  "backoffQuery sourcegraphDotCom =
     (if sourcegraphDotCom
      then backoffQuery_base @ '' AND namespace_user_id IS NULL''
      else backoffQuery_base)"

text \<open>
  \<open>MustRegisterMetrics\<close> registers eight gauge functions: each is listed with its metric
  name. A gauge function runs its query against the database at every collection, so it
  is a function of the database as it answers then.
\<close>

definition MustRegisterMetrics :: "bool \<Rightarrow> (string \<times> (DB \<Rightarrow> real)) list" where
  "MustRegisterMetrics sourcegraphDotCom =
     [(''src_repoupdater_external_services_total'', count_gauge sql_external_services_total),
      (''src_repoupdater_user_external_services_total'', count_gauge sql_user_external_services_total),
      (''src_repoupdater_user_repos_total'', count_gauge sql_user_repos_total),
      (''src_repoupdater_user_with_external_services_total'',
         count_gauge sql_user_with_external_services_total),
      (''src_repoupdater_queued_sync_jobs_total'', count_gauge sql_queued_sync_jobs_total),
      (''src_repoupdater_completed_sync_jobs_total'', count_gauge sql_completed_sync_jobs_total),
      (''src_repoupdater_errored_sync_jobs_percentage'',
         null_float_gauge sql_errored_sync_jobs_percentage),
      (''src_repoupdater_max_sync_backoff'', null_float_gauge (backoffQuery sourcegraphDotCom))]"

section \<open>Scheduler Core, Job Store and Purge Worker\<close>

text \<open>
  Modelled from the spec: the Job Store (\<open>Begin\<close>, \<open>Complete\<close>), the Scheduler Core
  (\<open>Register\<close>, \<open>RequestImmediateSync\<close>, \<open>Tick\<close>, \<open>RecordOutcome\<close>, \<open>Deregister\<close>), the
  backoff policy and the Purge Worker. The code of the scheduler, of the job store and of
  the purge worker is missing from the sources; of this part only the declarations of the
  counters \<open>purgeSuccess\<close> and \<open>purgeFailed\<close> above are there. Every definition of this
  section follows sections 3 and 4 of the specification. Calls are serialized, as its
  section 5 requires of every mutation, so a race between two calls is the two calls in
  either order. Time is a count of clock units.
\<close>

subsection \<open>Job Store\<close>

type_synonym repo_id = nat
type_synonym time = nat

datatype trigger_kind = Auto | Manual

datatype job_state = Queued | Running | Completed | Errored

record sync_job =
  job_repo :: repo_id
  requested_at :: time
  job_state :: job_state
  started_at :: "time option"
  finished_at :: "time option"
  error_detail :: "string option"
  trigger :: trigger_kind

text \<open>
  Modelled from the spec: the Sync Job record and the job history, which is missing from
  the sources. The history is append-only; a job's identifier is its position.
\<close>

type_synonym job_store = "sync_job list"

datatype store_error = AlreadyRunning

definition non_terminal :: "sync_job \<Rightarrow> bool" where
  "non_terminal j = (job_state j = Queued \<or> job_state j = Running)"

definition in_flight :: "job_store \<Rightarrow> repo_id \<Rightarrow> bool" where
  "in_flight st r = list_ex (\<lambda>j. job_repo j = r \<and> non_terminal j) st"

text \<open>Modelled from the spec: the non-terminal (queued or running) jobs of a repository.\<close>

definition live_jobs :: "job_store \<Rightarrow> repo_id \<Rightarrow> sync_job list" where
  "live_jobs st r = filter (\<lambda>j. job_repo j = r \<and> non_terminal j) st"

text \<open>
  Modelled from the spec: the invariant of the missing Job Store, at most one
  non-terminal job per repository.
\<close>

definition one_live :: "job_store \<Rightarrow> bool" where
  "one_live st = (\<forall>r. length (live_jobs st r) \<le> 1)"

text \<open>
  Modelled from the spec: the missing \<open>Begin(repoID, trigger) -> jobID |
  Error{AlreadyRunning}\<close>. The job it appends has started, so it is created running.
\<close>

definition Begin :: "job_store \<Rightarrow> repo_id \<Rightarrow> trigger_kind \<Rightarrow> time \<Rightarrow> store_error + nat \<times> job_store" where
  "Begin st repoID trg now =
     (if in_flight st repoID then Inl AlreadyRunning
      else Inr (length st,
                st @ [\<lparr>job_repo = repoID, requested_at = now, job_state = Running,
                       started_at = Some now, finished_at = None, error_detail = None,
                       trigger = trg\<rparr>]))"

text \<open>
  Modelled from the spec: the missing \<open>Complete(jobID, error?)\<close>. The first report
  makes the job terminal; a report for a terminal job, or for no job, is ignored.
\<close>

definition Complete :: "job_store \<Rightarrow> nat \<Rightarrow> string option \<Rightarrow> time \<Rightarrow> job_store" where
  "Complete st jobID err now =
     (if jobID < length st \<and> non_terminal (st ! jobID)
      then st[jobID := (st ! jobID)
                \<lparr>job_state := (case err of None \<Rightarrow> Completed | Some e \<Rightarrow> Errored),
                 finished_at := Some now,
                 error_detail := err\<rparr>]
      else st)"

subsection \<open>Backoff policy\<close>

record config =
  base_interval :: time
  max_interval :: time
  refresh_interval :: time
  recheck_interval :: time

text \<open>
  Modelled from the spec: the missing backoff computation, "exponential backoff capped
  at a maximum interval", the delta being the base interval at a failure count of 1.
  \<open>backoff n\<close> for \<open>n \<ge> 1\<close> consecutive failures is the base interval after the first
  failure, doubled by each further failure, capped at the maximum interval. The spec
  gives no growth factor; doubling is the one taken here.
\<close>

definition backoff :: "config \<Rightarrow> nat \<Rightarrow> time" where
  "backoff cfg n = min (max_interval cfg) (base_interval cfg * 2 ^ (n - 1))"

text \<open>
  Modelled from the spec: the delta from the attempt to the next due-time, the
  steady-state refresh interval when the failure counter is zero, the backoff otherwise.
\<close>

definition next_delta :: "config \<Rightarrow> nat \<Rightarrow> time" where
  "next_delta cfg n = (if n = 0 then refresh_interval cfg else backoff cfg n)"

subsection \<open>Scheduler Core\<close>

datatype family = Conventional | ArtifactDerived

record repository =
  repo_name :: string
  repo_family :: family
  cloneable :: bool
  last_sync :: "time option"
  due :: time
  removed :: bool
  failures :: nat
  last_error :: "string option"

record queue_entry =
  q_repo :: repo_id
  q_due :: time
  q_class :: trigger_kind

record scheduler =
  known :: "repo_id \<rightharpoonup> repository"
  queue :: "queue_entry list"
  jobs :: job_store

definition init_scheduler :: scheduler where
  "init_scheduler = \<lparr>known = Map.empty, queue = [], jobs = []\<rparr>"

text \<open>
  Modelled from the spec: the update queue, missing from the sources. A repository has
  at most one queue entry: enqueuing replaces the one it has. An entry is live once its
  due-time has come.
\<close>

definition enqueue :: "queue_entry \<Rightarrow> queue_entry list \<Rightarrow> queue_entry list" where
  "enqueue e q = e # filter (\<lambda>x. q_repo x \<noteq> q_repo e) q"

definition cancel :: "repo_id \<Rightarrow> queue_entry list \<Rightarrow> queue_entry list" where
  "cancel r q = filter (\<lambda>x. q_repo x \<noteq> r) q"

definition tracked :: "scheduler \<Rightarrow> repo_id \<Rightarrow> bool" where
  "tracked s r = (case known s r of None \<Rightarrow> False | Some e \<Rightarrow> \<not> removed e)"

text \<open>
  Modelled from the spec: the missing \<open>Register\<close>. A repository that is new (unknown, or known only as removed) gets an entry
  and is enqueued with class auto and due-time zero; for a tracked one the entry is
  updated.
\<close>

definition register_new :: "repo_id \<Rightarrow> string \<Rightarrow> family \<Rightarrow> scheduler \<Rightarrow> scheduler" where
  "register_new r nm fam s =
     s\<lparr>known := (known s)(r \<mapsto>
          \<lparr>repo_name = nm, repo_family = fam, cloneable = False, last_sync = None,
           due = 0, removed = False, failures = 0, last_error = None\<rparr>),
       queue := enqueue \<lparr>q_repo = r, q_due = 0, q_class = Auto\<rparr> (queue s)\<rparr>"

definition Register :: "repo_id \<Rightarrow> string \<Rightarrow> family \<Rightarrow> scheduler \<Rightarrow> scheduler" where
  "Register r nm fam s =
     (case known s r of
        None \<Rightarrow> register_new r nm fam s
      | Some e \<Rightarrow>
          if removed e then register_new r nm fam s
          else s\<lparr>known := (known s)(r \<mapsto> e\<lparr>repo_name := nm, repo_family := fam\<rparr>)\<rparr>)"

datatype request_error = AlreadySyncing | NotTracked

text \<open>
  Modelled from the spec: the missing \<open>RequestImmediateSync\<close>. The entry has class
  manual and is due now, in place of any entry the repository has; the request is
  rejected as "already syncing" while a job of the repository is in flight.
\<close>

definition RequestImmediateSync :: "repo_id \<Rightarrow> time \<Rightarrow> scheduler \<Rightarrow> request_error option \<times> scheduler" where
  "RequestImmediateSync r now s =
     (if \<not> tracked s r then (Some NotTracked, s)
      else if in_flight (jobs s) r then (Some AlreadySyncing, s)
      else (None, s\<lparr>queue := enqueue \<lparr>q_repo = r, q_due = now, q_class = Manual\<rparr> (queue s)\<rparr>))"

text \<open>
  Modelled from the spec: the order in which \<open>Tick\<close> takes entries, manual before auto; within a class the earlier due-time; then
  the smaller repository identifier.
\<close>

definition class_rank :: "trigger_kind \<Rightarrow> nat" where
  "class_rank c = (case c of Manual \<Rightarrow> 0 | Auto \<Rightarrow> 1)"

definition entry_before :: "queue_entry \<Rightarrow> queue_entry \<Rightarrow> bool" where
  "entry_before a b =
     (class_rank (q_class a) < class_rank (q_class b)
      \<or> (class_rank (q_class a) = class_rank (q_class b)
          \<and> (q_due a < q_due b \<or> (q_due a = q_due b \<and> q_repo a < q_repo b))))"

fun best_entry :: "queue_entry \<Rightarrow> queue_entry list \<Rightarrow> queue_entry" where
  "best_entry b [] = b"
| "best_entry b (e # es) = best_entry (if entry_before e b then e else b) es"

text \<open>
  Modelled from the spec: the missing \<open>Tick\<close>. It pops the first due entry in that order. If its repository has no job in
  flight a job is begun, else the entry is put back, due after the recheck interval.
  The result is the identifier of the job begun, if any.
\<close>

definition Tick :: "config \<Rightarrow> time \<Rightarrow> scheduler \<Rightarrow> nat option \<times> scheduler" where
  "Tick cfg now s =
     (case filter (\<lambda>e. q_due e \<le> now) (queue s) of
        [] \<Rightarrow> (None, s)
      | d # ds \<Rightarrow>
          (let e = best_entry d ds;
               q = cancel (q_repo e) (queue s)
           in case Begin (jobs s) (q_repo e) (q_class e) now of
                Inl AlreadyRunning \<Rightarrow>
                  (None, s\<lparr>queue := enqueue (e\<lparr>q_due := now + recheck_interval cfg\<rparr>) q\<rparr>)
              | Inr (jobID, st) \<Rightarrow> (Some jobID, s\<lparr>queue := q, jobs := st\<rparr>)))"

text \<open>
  Modelled from the spec: the missing \<open>RecordOutcome\<close>. It completes the job. On success the failure counter is reset and
  \<open>last_sync\<close> set; on failure the counter is incremented and the error recorded. The
  next due-time is the time of the outcome plus \<open>next_delta\<close> of the new counter, and a
  tracked repository is enqueued for it with class auto. A second report for a job
  changes nothing.
\<close>

definition RecordOutcome :: "config \<Rightarrow> nat \<Rightarrow> string option \<Rightarrow> time \<Rightarrow> scheduler \<Rightarrow> scheduler" where
  "RecordOutcome cfg jobID err now s =
     (if jobID < length (jobs s) \<and> non_terminal (jobs s ! jobID)
      then
        (let r = job_repo (jobs s ! jobID);
             s1 = s\<lparr>jobs := Complete (jobs s) jobID err now\<rparr>
         in case known s r of
              None \<Rightarrow> s1
            | Some e \<Rightarrow>
                (let n = (case err of None \<Rightarrow> 0 | Some x \<Rightarrow> failures e + 1);
                     e1 = e\<lparr>failures := n,
                            due := now + next_delta cfg n,
                            last_sync := (case err of None \<Rightarrow> Some now | Some x \<Rightarrow> last_sync e),
                            last_error := (case err of None \<Rightarrow> last_error e | Some x \<Rightarrow> err)\<rparr>
                 in s1\<lparr>known := (known s)(r \<mapsto> e1),
                       queue := (if removed e then queue s
                                 else enqueue \<lparr>q_repo = r, q_due = due e1, q_class = Auto\<rparr> (queue s))\<rparr>))
      else s)"

text \<open>
  Modelled from the spec: the missing \<open>Deregister\<close>. It marks the repository removed and cancels its queue entry; the
  materialized data is left to the Purge Worker.
\<close>

definition Deregister :: "repo_id \<Rightarrow> scheduler \<Rightarrow> scheduler" where
  "Deregister r s =
     (case known s r of
        None \<Rightarrow> s
      | Some e \<Rightarrow> s\<lparr>known := (known s)(r \<mapsto> e\<lparr>removed := True\<rparr>), queue := cancel r (queue s)\<rparr>)"

text \<open>
  Modelled from the spec: the calls a collaborator can make, on the scheduler or directly on its Job Store, and
  the state after a sequence of them from the initial state.
\<close>

datatype operation =
    OpRegister repo_id string family
  | OpRequestImmediateSync repo_id time
  | OpTick time
  | OpRecordOutcome nat "string option" time
  | OpDeregister repo_id
  | OpBegin repo_id trigger_kind time
  | OpComplete nat "string option" time

fun apply_op :: "config \<Rightarrow> scheduler \<Rightarrow> operation \<Rightarrow> scheduler" where
  "apply_op cfg s (OpRegister r nm fam) = Register r nm fam s"
| "apply_op cfg s (OpRequestImmediateSync r now) = snd (RequestImmediateSync r now s)"
| "apply_op cfg s (OpTick now) = snd (Tick cfg now s)"
| "apply_op cfg s (OpRecordOutcome jobID err now) = RecordOutcome cfg jobID err now s"
| "apply_op cfg s (OpDeregister r) = Deregister r s"
| "apply_op cfg s (OpBegin r trg now) =
     (case Begin (jobs s) r trg now of Inl e \<Rightarrow> s | Inr (jobID, st) \<Rightarrow> s\<lparr>jobs := st\<rparr>)"
| "apply_op cfg s (OpComplete jobID err now) = s\<lparr>jobs := Complete (jobs s) jobID err now\<rparr>"

definition run_ops :: "config \<Rightarrow> operation list \<Rightarrow> scheduler" where
  "run_ops cfg ops = foldl (apply_op cfg) init_scheduler ops"

subsection \<open>Purge Worker\<close>

text \<open>
  Modelled from the spec: the missing Purge Worker. A sweep takes the materialized repositories that are not tracked and have no job in
  flight, and tries to remove each one's local data; \<open>removeClone\<close> is the outcome of the
  attempt. A removal that succeeds is counted in \<open>purgeSuccess\<close>, the data is gone and
  the repository's entry is dropped; one that fails is counted in \<open>purgeFailed\<close>, the
  data stays (to be tried again by the next sweep) and the sweep goes on.
\<close>

record purge_state =
  materialized :: "repo_id list"
  metrics :: counters
  entries :: "repo_id \<rightharpoonup> repository"

definition orphans :: "scheduler \<Rightarrow> repo_id list \<Rightarrow> repo_id list" where
  "orphans s mat = filter (\<lambda>r. \<not> tracked s r \<and> \<not> in_flight (jobs s) r) mat"

definition purge_one :: "(repo_id \<Rightarrow> string option) \<Rightarrow> repo_id \<Rightarrow> purge_state \<Rightarrow> purge_state" where
  "purge_one removeClone r p =
     (case removeClone r of
        None \<Rightarrow> p\<lparr>materialized := removeAll r (materialized p),
                  metrics := Inc purgeSuccess (metrics p),
                  entries := (entries p)(r := None)\<rparr>
      | Some e \<Rightarrow> p\<lparr>metrics := Inc purgeFailed (metrics p)\<rparr>)"

fun purge_all :: "(repo_id \<Rightarrow> string option) \<Rightarrow> repo_id list \<Rightarrow> purge_state \<Rightarrow> purge_state" where
  "purge_all removeClone [] p = p"
| "purge_all removeClone (r # rs) p = purge_all removeClone rs (purge_one removeClone r p)"

definition sweep :: "(repo_id \<Rightarrow> string option) \<Rightarrow> scheduler \<Rightarrow> repo_id list \<Rightarrow> counters
    \<Rightarrow> purge_state" where
  "sweep removeClone s mat m =
     purge_all removeClone (orphans s mat) \<lparr>materialized = mat, metrics = m, entries = known s\<rparr>"

section \<open>Concrete inputs\<close>

text \<open>
  An environment in which every step succeeds: the registry resolves one sources jar for
  \<open>junit:junit:4.13\<close>, \<open>unzip\<close> unpacks one file into the directory it is given, the
  other processes change nothing, and \<open>GitDir.Set\<close> sets the working directory of the
  command and \<open>GIT_DIR\<close> to the directory.
\<close>

definition example_env :: env where
  \<open>example_env =
     \<lparr>DecomposeMavenPath = (\<lambda>p. p),
      FetchSources = (\<lambda>ctx cfg dependency r.
        if dependency = ''junit:junit:4.13''
        then (([''/cache/junit-4.13-sources.jar''], None), dependency # r)
        else (([], None), r)),
      runWith = (\<lambda>ctx cmd fs.
        if take 1 (Args cmd) = [''unzip'']
        then (([], None), fs(Args cmd ! 3 @ ''/Assert.java'' \<mapsto> ''class Assert {}''))
        else (([], None), fs)),
      GitDir_Path = (\<lambda>dir elem. dir @ ''/'' @ elem),
      GitDir_Set = (\<lambda>dir cmd. cmd\<lparr>Dir := dir, Env := Env cmd @ [''GIT_DIR='' @ dir]\<rparr>),
      filepath_Dir = (\<lambda>p. ''/tmp/clone''),
      json_Marshal = (\<lambda>j. (''{"kind":"'' @ Kind j @ ''","jvm":"'' @ Jvm j @ ''","dependencies":["''
                              @ concat (Dependencies j) @ ''"]}'', None)),
      os_Create_err = (\<lambda>p fs. None),
      file_Write_err = (\<lambda>p b fs. None)\<rparr>\<close>

definition example_url :: vcs_URL where
  \<open>example_url = \<lparr>Scheme = ''maven'', Host = [], Path = ''junit:junit:4.13''\<rparr>\<close>

definition example_world :: world where
  \<open>example_world = \<lparr>registry = [], files = Map.empty, executed = []\<rparr>\<close>

text \<open>A database on which every query fails.\<close>

definition failing_db :: DB where
  "failing_db =
     (\<lambda>q. \<lparr>Scan_int64 = (0, Some (Extern ''connection refused'')),
            Scan_NullFloat64 = (\<lparr>Float64 = 0, Valid = False\<rparr>, Some (Extern ''connection refused''))\<rparr>)"

text \<open>
  A scheduler with one tracked repository that has failed twice and has a job running,
  one repository marked removed, and a policy with a base interval of 30, a cap of 3600
  and a refresh interval of 600.
\<close>

definition example_config :: config where
  "example_config =
     \<lparr>base_interval = 30, max_interval = 3600, refresh_interval = 600, recheck_interval = 5\<rparr>"

definition example_repo :: repository where
  "example_repo =
     \<lparr>repo_name = ''github.com/a/b'', repo_family = Conventional, cloneable = True,
      last_sync = Some 10, due = 0, removed = False, failures = 2, last_error = Some ''timeout''\<rparr>"

definition example_job :: sync_job where
  "example_job =
     \<lparr>job_repo = 1, requested_at = 40, job_state = Running, started_at = Some 40,
      finished_at = None, error_detail = None, trigger = Auto\<rparr>"

definition example_sched :: scheduler where
  "example_sched =
     \<lparr>known = [1 \<mapsto> example_repo, 4 \<mapsto> example_repo\<lparr>removed := True\<rparr>],
      queue = [], jobs = [example_job]\<rparr>"

text \<open>Removing the clone of repository 3 fails; every other removal succeeds.\<close>

definition example_remove :: "repo_id \<Rightarrow> string option" where
  "example_remove r = (if r = 3 then Some ''permission denied'' else None)"

section \<open>Properties of the artifact-derived strategy\<close>

text \<open>
  C2. The incremental update of the artifact-derived strategy, \<open>MavenArtifactSyncer.Fetch\<close>,
  returns nil for every syncer, context, remote URL (nil included) and destination
  directory, and leaves the registry state, the files and the list of processes run
  exactly as they were: it is a no-op.
\<close>

theorem Fetch_noop:
  "Fetch s ctx remoteURL dir w = (None, w)"
  by (simp add: Fetch_def)

text \<open>
  C8. \<open>MavenArtifactSyncer.RemoteShowCommand\<close> only builds the command
  \<open>git remote show ./\<close>: for every context and remote URL (nil included) it returns that
  command with a nil error, and the registry state, the files and the list of processes
  run are unchanged, so nothing is fetched, materialized or executed.
\<close>

theorem RemoteShowCommand_builds_only:
  "RemoteShowCommand s ctx remoteURL w =
     ((Some \<lparr>cmd_ctx = ctx, Args = [''git'', ''remote'', ''show'', ''./''], Dir = [], Env = []\<rparr>, None), w)"
  by (simp add: RemoteShowCommand_def CommandContext_def)

text \<open>
  C5. For a non-nil URL, let the registry answer the query for the dependency decomposed
  from the URL's path with the list \<open>sources\<close> and the error \<open>err\<close>. Then \<open>IsCloneable\<close>
  returns nil exactly when \<open>err\<close> is nil and \<open>sources\<close> is not empty; it returns \<open>err\<close>
  when the fetch fails, and the error \<open>no sources.jar for dependency ...\<close> when the fetch
  succeeds with an empty list. It touches no file and runs no process: only the state of
  the registry client may change.
\<close>

theorem IsCloneable_nil_iff_resolved:
  assumes "FetchSources E ctx (Config s) (DecomposeMavenPath E (Path u)) (registry w) = ((sources, err), r)"
  shows "(fst (IsCloneable E s ctx (Some u) w) = Return None \<longleftrightarrow> err = None \<and> sources \<noteq> []) \<and>
         (err \<noteq> None \<longrightarrow> fst (IsCloneable E s ctx (Some u) w) = Return err) \<and>
         (err = None \<and> sources = [] \<longrightarrow>
            fst (IsCloneable E s ctx (Some u) w) =
              Return (Some (Errorf ''no sources.jar for dependency %s'' (DecomposeMavenPath E (Path u))))) \<and>
         files (snd (IsCloneable E s ctx (Some u) w)) = files w \<and>
         executed (snd (IsCloneable E s ctx (Some u) w)) = executed w"
  using assms by (auto simp add: IsCloneable_def fetch_def Let_def)

theorem IsCloneable_nil_iff_resolved_witness:
  "FetchSources example_env 0 None (DecomposeMavenPath example_env (Path example_url))
      (registry example_world)
     = (([''/cache/junit-4.13-sources.jar''], None), [''junit:junit:4.13'']) \<and>
   fst (IsCloneable example_env \<lparr>Config = None\<rparr> 0 (Some example_url) example_world) = Return None \<and>
   files (snd (IsCloneable example_env \<lparr>Config = None\<rparr> 0 (Some example_url) example_world))
     = files example_world"
proof -
  have h: "FetchSources example_env 0 (Config \<lparr>Config = None\<rparr>)
      (DecomposeMavenPath example_env (Path example_url)) (registry example_world)
     = (([''/cache/junit-4.13-sources.jar''], None), [''junit:junit:4.13''])"
    by (simp add: example_env_def example_url_def example_world_def)
  from IsCloneable_nil_iff_resolved[OF h] h show ?thesis by simp
qed

text \<open>
  What a successful run of \<open>commitJar\<close> has done: unzip, the metadata file, git add and
  git commit, each without error and in this order.
\<close>

lemma commitJar_ok:
  assumes "commitJar E s ctx dir workingDir dependency path w = (None, w')"
  shows "\<exists>json fs2 fs3 fs4 o2 o3 o4.
     json_Marshal E \<lparr>Kind = ''maven'', Jvm = ''8'', Dependencies = [dependency]\<rparr> = (json, None) \<and>
     runWith E ctx (unzipCmd E ctx dir workingDir path) (files w) = ((o2, None), fs2) \<and>
     runWith E ctx (addCmd E ctx dir) (fs2(GitDir_Path E dir ''lsif-java.json'' \<mapsto> json)) = ((o3, None), fs3) \<and>
     runWith E ctx (commitCmd E ctx dir dependency) fs3 = ((o4, None), fs4) \<and>
     files w' = fs4 \<and> registry w' = registry w \<and>
     executed w' = executed w @ [unzipCmd E ctx dir workingDir path, addCmd E ctx dir, commitCmd E ctx dir dependency]"
  using assms
  unfolding commitJar_def run_def os_Create_def file_Write_def
  by (auto split: prod.splits option.splits)

text \<open>
  What a successful run of \<open>CloneCommand\<close> has done, in any environment: the registry
  resolved a non-empty list of sources; four processes ran without error, \<open>git init\<close> in
  \<open>filepath.Dir(tmpPath)\<close>, \<open>unzip\<close> of the first sources jar into that same directory,
  then \<open>git add .\<close> and \<open>git commit -m\<close> with the dependency as message, the last three
  after \<open>GitDir(tmpPath).Set\<close>; and \<open>lsif-java.json\<close> was written under \<open>tmpPath\<close> between
  unzip and git add.
\<close>

lemma CloneCommand_success:
  assumes "CloneCommand E s ctx (Some u) tmpPath w = (Return (cmd, None), w')"
  shows "\<exists>paths r json o1 o2 o3 o4 fs1 fs2 fs3.
     FetchSources E ctx (Config s) (DecomposeMavenPath E (Path u)) (registry w) = ((paths, None), r) \<and>
     paths \<noteq> [] \<and>
     json_Marshal E \<lparr>Kind = ''maven'', Jvm = ''8'', Dependencies = [DecomposeMavenPath E (Path u)]\<rparr>
       = (json, None) \<and>
     runWith E ctx \<lparr>cmd_ctx = ctx, Args = [''git'', ''init''], Dir = filepath_Dir E tmpPath, Env = []\<rparr>
       (files w) = ((o1, None), fs1) \<and>
     runWith E ctx (GitDir_Set E tmpPath
        \<lparr>cmd_ctx = ctx, Args = [''unzip'', paths ! 0, ''-d'', filepath_Dir E tmpPath], Dir = [], Env = []\<rparr>)
       fs1 = ((o2, None), fs2) \<and>
     runWith E ctx (GitDir_Set E tmpPath \<lparr>cmd_ctx = ctx, Args = [''git'', ''add'', ''.''], Dir = [], Env = []\<rparr>)
       (fs2(GitDir_Path E tmpPath ''lsif-java.json'' \<mapsto> json)) = ((o3, None), fs3) \<and>
     runWith E ctx (GitDir_Set E tmpPath
        \<lparr>cmd_ctx = ctx, Args = [''git'', ''commit'', ''-m'', DecomposeMavenPath E (Path u)], Dir = [], Env = []\<rparr>)
       fs3 = ((o4, None), files w') \<and>
     executed w' = executed w @
       [\<lparr>cmd_ctx = ctx, Args = [''git'', ''init''], Dir = filepath_Dir E tmpPath, Env = []\<rparr>,
        GitDir_Set E tmpPath
          \<lparr>cmd_ctx = ctx, Args = [''unzip'', paths ! 0, ''-d'', filepath_Dir E tmpPath], Dir = [], Env = []\<rparr>,
        GitDir_Set E tmpPath \<lparr>cmd_ctx = ctx, Args = [''git'', ''add'', ''.''], Dir = [], Env = []\<rparr>,
        GitDir_Set E tmpPath
          \<lparr>cmd_ctx = ctx, Args = [''git'', ''commit'', ''-m'', DecomposeMavenPath E (Path u)], Dir = [], Env = []\<rparr>] \<and>
     cmd = Some \<lparr>cmd_ctx = ctx, Args = [''git'', ''--version''], Dir = [], Env = []\<rparr>"
proof -
  let ?dep = "DecomposeMavenPath E (Path u)"
  obtain paths err r where F: "FetchSources E ctx (Config s) ?dep (registry w) = ((paths, err), r)"
    by (metis surj_pair)
  from assms F have err: "err = None" and ne: "paths \<noteq> []"
    by (auto simp: CloneCommand_def fetch_def Let_def split: if_splits)
  obtain o1 e1 fs1 where R: "runWith E ctx (initCmd E ctx tmpPath) (files w) = ((o1, e1), fs1)"
    by (metis surj_pair)
  let ?w2 = "w\<lparr>registry := r, files := fs1, executed := executed w @ [initCmd E ctx tmpPath]\<rparr>"
  from assms F err ne R have e1: "e1 = None"
    and CJ: "commitJar E s ctx tmpPath (filepath_Dir E tmpPath) ?dep (paths ! 0) ?w2 = (None, w')"
    and cmd: "cmd = Some (CommandContext ctx ''git'' [''--version''])"
    by (auto simp: CloneCommand_def fetch_def Let_def run_def split: if_splits option.splits prod.splits)
  from commitJar_ok[OF CJ] F err ne R e1 cmd show ?thesis
    by (auto simp: initCmd_def unzipCmd_def addCmd_def commitCmd_def CommandContext_def)
qed

text \<open>
  C6. The code at a successful materialization, which is not what the claim says. For
  the URL path \<open>junit:junit:4.13\<close> and the destination \<open>/tmp/clone/.git\<close>, \<open>CloneCommand\<close>
  succeeds after running \<open>git init\<close> in \<open>/tmp/clone\<close>, \<open>unzip -d /tmp/clone\<close>, and then
  \<open>git add .\<close> and one \<open>git commit -m junit:junit:4.13\<close> in \<open>/tmp/clone/.git\<close>, with
  \<open>GIT_DIR\<close> set to that directory. The metadata file \<open>/tmp/clone/.git/lsif-java.json\<close>
  holds the JSON encoding of kind \<open>maven\<close>, jvm \<open>8\<close> and the one dependency, and lies in the
  directory where git add and git commit ran. The unpacked file \<open>/tmp/clone/Assert.java\<close>
  does not: the artifact is unpacked into the parent of the directory that is added and
  committed, so the commit is made from a directory that does not hold it.
\<close>

theorem CloneCommand_artifact_outside_commit_dir:
  \<open>fst (CloneCommand example_env \<lparr>Config = None\<rparr> 0 (Some example_url) ''/tmp/clone/.git'' example_world)
     = Return (Some \<lparr>cmd_ctx = 0, Args = [''git'', ''--version''], Dir = [], Env = []\<rparr>, None) \<and>
   executed (snd (CloneCommand example_env \<lparr>Config = None\<rparr> 0 (Some example_url) ''/tmp/clone/.git''
      example_world))
     = [\<lparr>cmd_ctx = 0, Args = [''git'', ''init''], Dir = ''/tmp/clone'', Env = []\<rparr>,
        \<lparr>cmd_ctx = 0, Args = [''unzip'', ''/cache/junit-4.13-sources.jar'', ''-d'', ''/tmp/clone''],
          Dir = ''/tmp/clone/.git'', Env = [''GIT_DIR=/tmp/clone/.git'']\<rparr>,
        \<lparr>cmd_ctx = 0, Args = [''git'', ''add'', ''.''],
          Dir = ''/tmp/clone/.git'', Env = [''GIT_DIR=/tmp/clone/.git'']\<rparr>,
        \<lparr>cmd_ctx = 0, Args = [''git'', ''commit'', ''-m'', ''junit:junit:4.13''],
          Dir = ''/tmp/clone/.git'', Env = [''GIT_DIR=/tmp/clone/.git'']\<rparr>] \<and>
   files (snd (CloneCommand example_env \<lparr>Config = None\<rparr> 0 (Some example_url) ''/tmp/clone/.git''
      example_world)) ''/tmp/clone/.git/lsif-java.json''
     = Some ''{"kind":"maven","jvm":"8","dependencies":["junit:junit:4.13"]}'' \<and>
   files (snd (CloneCommand example_env \<lparr>Config = None\<rparr> 0 (Some example_url) ''/tmp/clone/.git''
      example_world)) ''/tmp/clone/Assert.java''
     = Some ''class Assert {}'' \<and>
   prefix ''/tmp/clone/.git/'' ''/tmp/clone/.git/lsif-java.json'' \<and>
   \<not> prefix ''/tmp/clone/.git/'' ''/tmp/clone/Assert.java''\<close>
  by (simp add: CloneCommand_def commitJar_def fetch_def run_def os_Create_def file_Write_def
      initCmd_def unzipCmd_def addCmd_def commitCmd_def CommandContext_def Let_def
      example_env_def example_url_def example_world_def)

section \<open>Properties of the gauges\<close>

lemma count_gauge_eq:
  "count_gauge q db =
     (if snd (Scan_int64 (db q)) \<noteq> None then 0 else real_of_int (sint (fst (Scan_int64 (db q)))))"
proof (cases "Scan_int64 (db q)")
  case (Pair count err)
  then show ?thesis
    by (cases err) (simp_all add: count_gauge_def scanCount_def Let_def)
qed

lemma null_float_gauge_eq:
  "null_float_gauge q db =
     (if snd (Scan_NullFloat64 (db q)) \<noteq> None then 0
      else if \<not> Valid (fst (Scan_NullFloat64 (db q))) then 0
      else Float64 (fst (Scan_NullFloat64 (db q))))"
proof (cases "Scan_NullFloat64 (db q)")
  case (Pair v err)
  then show ?thesis
    by (cases err) (simp_all add: null_float_gauge_def scanNullFloat_def Let_def)
qed

text \<open>
  C10. Every gauge function registered by \<open>MustRegisterMetrics\<close> is a function of the
  outcome of one query \<open>q\<close>, defined for every outcome. A counting gauge is 0 when
  scanning the row into an \<open>int64\<close> gives an error (a failed query, or a NULL), else the
  count. A nullable gauge is 0 when the scan gives an error, 0 when the value scanned is
  NULL (not valid), else the value. No outcome of the query makes a gauge fail.
\<close>

theorem gauges_zero_on_failure:
  assumes "(name, g) \<in> set (MustRegisterMetrics sourcegraphDotCom)"
  shows "\<exists>q.
     (g = count_gauge q \<and>
      (\<forall>db. g db = (if snd (Scan_int64 (db q)) \<noteq> None then 0
                    else real_of_int (sint (fst (Scan_int64 (db q))))))) \<or>
     (g = null_float_gauge q \<and>
      (\<forall>db. g db = (if snd (Scan_NullFloat64 (db q)) \<noteq> None then 0
                    else if \<not> Valid (fst (Scan_NullFloat64 (db q))) then 0
                    else Float64 (fst (Scan_NullFloat64 (db q))))))"
proof -
  from assms consider q where "g = count_gauge q" | q where "g = null_float_gauge q"
    unfolding MustRegisterMetrics_def by auto
  then show ?thesis
  proof cases
    case 1
    then show ?thesis using count_gauge_eq by blast
  next
    case 2
    then show ?thesis using null_float_gauge_eq by blast
  qed
qed

theorem gauges_zero_on_failure_witness:
  "(''src_repoupdater_queued_sync_jobs_total'', count_gauge sql_queued_sync_jobs_total)
      \<in> set (MustRegisterMetrics True) \<and>
   count_gauge sql_queued_sync_jobs_total failing_db = 0 \<and>
   (''src_repoupdater_max_sync_backoff'', null_float_gauge (backoffQuery True))
      \<in> set (MustRegisterMetrics True) \<and>
   null_float_gauge (backoffQuery True) failing_db = 0"
proof -
  have m1: "(''src_repoupdater_queued_sync_jobs_total'', count_gauge sql_queued_sync_jobs_total)
      \<in> set (MustRegisterMetrics True)"
    by (simp add: MustRegisterMetrics_def)
  have m2: "(''src_repoupdater_max_sync_backoff'', null_float_gauge (backoffQuery True))
      \<in> set (MustRegisterMetrics True)"
    by (simp add: MustRegisterMetrics_def)
  have z: "g failing_db = 0"
    if "\<exists>q. (g = count_gauge q \<and>
      (\<forall>db. g db = (if snd (Scan_int64 (db q)) \<noteq> None then 0
                    else real_of_int (sint (fst (Scan_int64 (db q))))))) \<or>
     (g = null_float_gauge q \<and>
      (\<forall>db. g db = (if snd (Scan_NullFloat64 (db q)) \<noteq> None then 0
                    else if \<not> Valid (fst (Scan_NullFloat64 (db q))) then 0
                    else Float64 (fst (Scan_NullFloat64 (db q))))))" for g
  proof -
    from that obtain q where
      "g failing_db = (if snd (Scan_int64 (failing_db q)) \<noteq> None then 0
                    else real_of_int (sint (fst (Scan_int64 (failing_db q))))) \<or>
       g failing_db = (if snd (Scan_NullFloat64 (failing_db q)) \<noteq> None then 0
                    else if \<not> Valid (fst (Scan_NullFloat64 (failing_db q))) then 0
                    else Float64 (fst (Scan_NullFloat64 (failing_db q))))"
      by blast
    then show ?thesis by (simp add: failing_db_def)
  qed
  from z[OF gauges_zero_on_failure[OF m1]] z[OF gauges_zero_on_failure[OF m2]] m1 m2
  show ?thesis by simp
qed

section \<open>Properties of the Job Store and the Scheduler Core\<close>

lemma live_jobs_append:
  "live_jobs (st @ [j]) r = live_jobs st r @ (if job_repo j = r \<and> non_terminal j then [j] else [])"
  by (simp add: live_jobs_def)

lemma in_flight_iff: "in_flight st r \<longleftrightarrow> live_jobs st r \<noteq> []"
  by (simp add: in_flight_def live_jobs_def list_ex_iff filter_empty_conv)

lemma filter_update_le:
  "\<not> P y \<Longrightarrow> length (filter P (xs[i := y])) \<le> length (filter P xs)"
proof (induction xs arbitrary: i)
  case Nil
  then show ?case by simp
next
  case (Cons x xs)
  then show ?case
    by (cases i) (auto simp: le_SucI)
qed

lemma Begin_live:
  assumes "Begin st r trg now = Inr (i, st')"
  shows "length (live_jobs st' r') \<le> max 1 (length (live_jobs st r'))"
  using assms
  by (auto simp: Begin_def in_flight_iff live_jobs_append non_terminal_def split: if_splits)

lemma Complete_live:
  "length (live_jobs (Complete st i err now) r) \<le> length (live_jobs st r)"
  unfolding Complete_def live_jobs_def
  by (auto intro!: filter_update_le simp: non_terminal_def split: option.splits)

lemma one_live_Begin:
  assumes "one_live st" and "Begin st r trg now = Inr (i, st')"
  shows "one_live st'"
  unfolding one_live_def
proof
  fix r'
  from assms(1) have "length (live_jobs st r') \<le> 1" by (simp add: one_live_def)
  with Begin_live[OF assms(2), of r'] show "length (live_jobs st' r') \<le> 1"
    by simp
qed

lemma one_live_Complete: "one_live st \<Longrightarrow> one_live (Complete st i err now)"
  unfolding one_live_def using Complete_live le_trans by blast

lemma jobs_Register: "jobs (Register r nm fam s) = jobs s"
  by (simp add: Register_def register_new_def split: option.splits)

lemma jobs_RequestImmediateSync: "jobs (snd (RequestImmediateSync r now s)) = jobs s"
  by (simp add: RequestImmediateSync_def)

lemma jobs_Deregister: "jobs (Deregister r s) = jobs s"
  by (simp add: Deregister_def split: option.splits)

lemma jobs_Tick:
  "jobs (snd (Tick cfg now s)) = jobs s \<or>
   (\<exists>r trg i. Begin (jobs s) r trg now = Inr (i, jobs (snd (Tick cfg now s))))"
proof (cases "filter (\<lambda>e. q_due e \<le> now) (queue s)")
  case Nil
  then show ?thesis by (simp add: Tick_def)
next
  case (Cons d ds)
  let ?e = "best_entry d ds"
  show ?thesis
  proof (cases "Begin (jobs s) (q_repo ?e) (q_class ?e) now")
    case (Inl x)
    with Cons have "jobs (snd (Tick cfg now s)) = jobs s"
      by (cases x) (simp add: Tick_def Let_def)
    then show ?thesis ..
  next
    case (Inr p)
    obtain i st where p: "p = (i, st)" by (cases p)
    with Cons Inr have "jobs (snd (Tick cfg now s)) = st"
      by (simp add: Tick_def Let_def)
    with Inr p show ?thesis by blast
  qed
qed

lemma jobs_RecordOutcome:
  "jobs (RecordOutcome cfg i err now s) = jobs s \<or>
   jobs (RecordOutcome cfg i err now s) = Complete (jobs s) i err now"
  by (simp add: RecordOutcome_def Let_def split: option.splits)

lemma one_live_apply_op:
  assumes "one_live (jobs s)"
  shows "one_live (jobs (apply_op cfg s op))"
proof (cases op)
  case (OpRegister r nm fam)
  with assms show ?thesis by (simp add: jobs_Register)
next
  case (OpRequestImmediateSync r now)
  with assms show ?thesis by (simp add: jobs_RequestImmediateSync)
next
  case (OpTick now)
  from jobs_Tick[of cfg now s] assms have "one_live (jobs (snd (Tick cfg now s)))"
    by (metis one_live_Begin)
  with OpTick show ?thesis by simp
next
  case (OpRecordOutcome i err now)
  from jobs_RecordOutcome[of cfg i err now s] assms
  have "one_live (jobs (RecordOutcome cfg i err now s))"
    by (metis one_live_Complete)
  with OpRecordOutcome show ?thesis by simp
next
  case (OpDeregister r)
  with assms show ?thesis by (simp add: jobs_Deregister)
next
  case (OpBegin r trg now)
  show ?thesis
  proof (cases "Begin (jobs s) r trg now")
    case (Inl e)
    with OpBegin assms show ?thesis by simp
  next
    case (Inr p)
    obtain i st where p: "p = (i, st)" by (cases p)
    with Inr assms have "one_live st" by (metis one_live_Begin)
    with OpBegin Inr p show ?thesis by simp
  qed
next
  case (OpComplete i err now)
  with assms show ?thesis by (simp add: one_live_Complete)
qed

lemma one_live_foldl: "one_live (jobs s) \<Longrightarrow> one_live (jobs (foldl (apply_op cfg) s ops))"
  by (induction ops arbitrary: s) (simp_all add: one_live_apply_op)

lemma one_live_run_ops: "one_live (jobs (run_ops cfg ops))"
  unfolding run_ops_def
  by (rule one_live_foldl) (simp add: init_scheduler_def one_live_def live_jobs_def)

lemma Begin_then_in_flight:
  "Begin st r trg now = Inr (i, st') \<Longrightarrow> in_flight st' r"
  by (auto simp: Begin_def in_flight_def non_terminal_def split: if_splits)

text \<open>
  C1. After any sequence of \<open>Register\<close>, \<open>RequestImmediateSync\<close>, \<open>Tick\<close>,
  \<open>RecordOutcome\<close>, \<open>Deregister\<close>, \<open>Begin\<close> and \<open>Complete\<close> calls from the initial state,
  every repository has at most one job that is queued or running. Of two \<open>Begin\<close> calls
  for one repository, taken one after the other on any job store, the two never both
  succeed: if the first succeeds the second is rejected with \<open>AlreadyRunning\<close>. When the
  repository has no job in flight exactly one of them succeeds, the first, and the other
  is rejected with \<open>AlreadyRunning\<close>; when it has one, the call is rejected with
  \<open>AlreadyRunning\<close>.
\<close>

theorem at_most_one_in_flight:
  "length (live_jobs (jobs (run_ops cfg ops)) r) \<le> 1 \<and>
   (Begin st r trg1 now1 = Inr (i, st') \<longrightarrow> Begin st' r trg2 now2 = Inl AlreadyRunning) \<and>
   (\<not> in_flight st r \<longrightarrow>
      (\<exists>i st'. Begin st r trg1 now1 = Inr (i, st') \<and> Begin st' r trg2 now2 = Inl AlreadyRunning)) \<and>
   (in_flight st r \<longrightarrow> Begin st r trg1 now1 = Inl AlreadyRunning)"
proof (intro conjI impI)
  show "length (live_jobs (jobs (run_ops cfg ops)) r) \<le> 1"
    using one_live_run_ops[of cfg ops] by (simp add: one_live_def)
next
  assume "Begin st r trg1 now1 = Inr (i, st')"
  from Begin_then_in_flight[OF this] show "Begin st' r trg2 now2 = Inl AlreadyRunning"
    by (simp add: Begin_def)
next
  assume idle: "\<not> in_flight st r"
  then obtain i st' where b: "Begin st r trg1 now1 = Inr (i, st')"
    by (simp add: Begin_def)
  from Begin_then_in_flight[OF this] have "Begin st' r trg2 now2 = Inl AlreadyRunning"
    by (simp add: Begin_def)
  with b show "\<exists>i st'. Begin st r trg1 now1 = Inr (i, st') \<and> Begin st' r trg2 now2 = Inl AlreadyRunning"
    by blast
next
  assume "in_flight st r"
  then show "Begin st r trg1 now1 = Inl AlreadyRunning"
    by (simp add: Begin_def)
qed

theorem at_most_one_in_flight_witness:
  "\<not> in_flight [] 1 \<and>
   Begin [] 1 Auto 40 = Inr (0, [example_job]) \<and>
   Begin [example_job] 1 Manual 41 = Inl AlreadyRunning \<and>
   in_flight [example_job] 1 \<and>
   length (live_jobs (jobs (run_ops example_config
      [OpRegister 1 ''github.com/a/b'' Conventional, OpTick 40, OpBegin 1 Manual 41,
       OpRecordOutcome 0 None 50, OpTick 700])) 1) \<le> 1"
proof -
  have idle: "\<not> in_flight [] 1"
    by (simp add: in_flight_def)
  have first: "Begin [] 1 Auto 40 = Inr (0, [example_job])"
    by (simp add: Begin_def in_flight_def example_job_def)
  have busy: "in_flight [example_job] 1"
    by (simp add: in_flight_def non_terminal_def example_job_def)
  note t = at_most_one_in_flight[of example_config
      "[OpRegister 1 ''github.com/a/b'' Conventional, OpTick 40, OpBegin 1 Manual 41,
        OpRecordOutcome 0 None 50, OpTick 700]" 1 "[]" Auto 40 0 "[example_job]" Manual 41]
  from t first have second: "Begin [example_job] 1 Manual 41 = Inl AlreadyRunning"
    by blast
  from t have "length (live_jobs (jobs (run_ops example_config
      [OpRegister 1 ''github.com/a/b'' Conventional, OpTick 40, OpBegin 1 Manual 41,
       OpRecordOutcome 0 None 50, OpTick 700])) 1) \<le> 1"
    by blast
  with idle first second busy show ?thesis by blast
qed

lemma backoff_mono: "m \<le> n \<Longrightarrow> backoff cfg m \<le> backoff cfg n"
proof -
  assume "m \<le> n"
  then have "(2::nat) ^ (m - 1) \<le> 2 ^ (n - 1)"
    by (intro power_increasing) auto
  then have "base_interval cfg * 2 ^ (m - 1) \<le> base_interval cfg * 2 ^ (n - 1)"
    by (rule mult_le_mono2)
  then show ?thesis
    unfolding backoff_def by (rule min.mono[OF le_refl])
qed

lemma backoff_capped: "backoff cfg n \<le> max_interval cfg"
  by (simp add: backoff_def)

lemma RecordOutcome_known:
  assumes "jobID < length (jobs s)" and "non_terminal (jobs s ! jobID)"
    and "known s (job_repo (jobs s ! jobID)) = Some e"
  shows "known (RecordOutcome cfg jobID err now s) (job_repo (jobs s ! jobID)) =
           Some (e\<lparr>failures := (case err of None \<Rightarrow> 0 | Some x \<Rightarrow> failures e + 1),
                   due := now + next_delta cfg (case err of None \<Rightarrow> 0 | Some x \<Rightarrow> failures e + 1),
                   last_sync := (case err of None \<Rightarrow> Some now | Some x \<Rightarrow> last_sync e),
                   last_error := (case err of None \<Rightarrow> last_error e | Some x \<Rightarrow> err)\<rparr>)"
  using assms by (simp add: RecordOutcome_def Let_def)

text \<open>
  C7. The backoff delta is non-decreasing in the number of consecutive failures and
  never exceeds the maximum interval; after the first failure it is the base interval
  (or the cap, if that is smaller). When the outcome of a running job of a known
  repository is recorded at time \<open>now\<close>: a success sets the repository's failure counter
  to 0 and its due-time to \<open>now\<close> plus the steady-state refresh interval; a failure adds 1
  to the counter and sets the due-time to \<open>now\<close> plus the backoff of the new counter.
\<close>

theorem backoff_monotone_capped_reset:
  "(m \<le> n \<longrightarrow> backoff cfg m \<le> backoff cfg n) \<and>
   backoff cfg n \<le> max_interval cfg \<and>
   backoff cfg 1 = min (max_interval cfg) (base_interval cfg) \<and>
   (jobID < length (jobs s) \<and> non_terminal (jobs s ! jobID) \<and>
    known s (job_repo (jobs s ! jobID)) = Some e \<longrightarrow>
      (\<exists>e'. known (RecordOutcome cfg jobID None now s) (job_repo (jobs s ! jobID)) = Some e' \<and>
            failures e' = 0 \<and> due e' = now + refresh_interval cfg) \<and>
      (\<exists>e'. known (RecordOutcome cfg jobID (Some x) now s) (job_repo (jobs s ! jobID)) = Some e' \<and>
            failures e' = failures e + 1 \<and> due e' = now + backoff cfg (failures e + 1)))"
proof (intro conjI impI)
  show "backoff cfg m \<le> backoff cfg n" if "m \<le> n" using that by (rule backoff_mono)
  show "backoff cfg n \<le> max_interval cfg" by (rule backoff_capped)
  show "backoff cfg 1 = min (max_interval cfg) (base_interval cfg)" by (simp add: backoff_def)
next
  assume a: "jobID < length (jobs s) \<and> non_terminal (jobs s ! jobID) \<and>
    known s (job_repo (jobs s ! jobID)) = Some e"
  then show "\<exists>e'. known (RecordOutcome cfg jobID None now s) (job_repo (jobs s ! jobID)) = Some e' \<and>
            failures e' = 0 \<and> due e' = now + refresh_interval cfg"
    by (simp add: RecordOutcome_known next_delta_def)
  from a show "\<exists>e'. known (RecordOutcome cfg jobID (Some x) now s) (job_repo (jobs s ! jobID)) = Some e' \<and>
            failures e' = failures e + 1 \<and> due e' = now + backoff cfg (failures e + 1)"
    by (simp add: RecordOutcome_known next_delta_def)
qed

theorem backoff_monotone_capped_reset_witness:
  "(2::nat) \<le> 9 \<and> backoff example_config 2 \<le> backoff example_config 9 \<and>
   backoff example_config 2 = 60 \<and> backoff example_config 9 = 3600 \<and>
   0 < length (jobs example_sched) \<and> non_terminal (jobs example_sched ! 0) \<and>
   known example_sched (job_repo (jobs example_sched ! 0)) = Some example_repo \<and>
   (\<exists>e'. known (RecordOutcome example_config 0 None 50 example_sched) 1 = Some e' \<and>
         failures e' = 0 \<and> due e' = 650) \<and>
   (\<exists>e'. known (RecordOutcome example_config 0 (Some ''timeout'') 50 example_sched) 1 = Some e' \<and>
         failures e' = 3 \<and> due e' = 170)"
proof -
  have le: "(2::nat) \<le> 9" by simp
  have h: "0 < length (jobs example_sched) \<and> non_terminal (jobs example_sched ! 0) \<and>
      known example_sched (job_repo (jobs example_sched ! 0)) = Some example_repo"
    by (simp add: example_sched_def example_job_def non_terminal_def)
  have r: "job_repo (jobs example_sched ! 0) = 1"
    by (simp add: example_sched_def example_job_def)
  have v: "backoff example_config 2 = 60" "backoff example_config 9 = 3600"
    "backoff example_config 3 = 120"
    by (simp_all add: backoff_def example_config_def)
  note t = backoff_monotone_capped_reset[of 2 9 example_config 0 example_sched example_repo 50 "''timeout''"]
  from t le have mono: "backoff example_config 2 \<le> backoff example_config 9" by blast
  from t h have
    "(\<exists>e'. known (RecordOutcome example_config 0 None 50 example_sched)
              (job_repo (jobs example_sched ! 0)) = Some e' \<and>
         failures e' = 0 \<and> due e' = 50 + refresh_interval example_config) \<and>
     (\<exists>e'. known (RecordOutcome example_config 0 (Some ''timeout'') 50 example_sched)
              (job_repo (jobs example_sched ! 0)) = Some e' \<and>
         failures e' = failures example_repo + 1 \<and>
         due e' = 50 + backoff example_config (failures example_repo + 1))"
    by blast
  then have
    "(\<exists>e'. known (RecordOutcome example_config 0 None 50 example_sched) 1 = Some e' \<and>
         failures e' = 0 \<and> due e' = 650) \<and>
     (\<exists>e'. known (RecordOutcome example_config 0 (Some ''timeout'') 50 example_sched) 1 = Some e' \<and>
         failures e' = 3 \<and> due e' = 170)"
    using v(3) by (simp add: r example_repo_def example_config_def)
  with le mono v(1,2) h show ?thesis by blast
qed

section \<open>Properties of the Purge Worker\<close>

lemma names_distinct: "Name purgeSuccess \<noteq> Name purgeFailed"
  by (simp add: purgeSuccess_def purgeFailed_def)

lemma purge_one_metrics:
  "metrics (purge_one rm r p) =
     (case rm r of None \<Rightarrow> Inc purgeSuccess (metrics p) | Some e \<Rightarrow> Inc purgeFailed (metrics p))"
  by (simp add: purge_one_def split: option.splits)

lemma purge_all_success:
  "metrics (purge_all rm rs p) (Name purgeSuccess) =
     metrics p (Name purgeSuccess) + length (filter (\<lambda>r. rm r = None) rs)"
proof (induction rs arbitrary: p)
  case Nil
  then show ?case by simp
next
  case (Cons r rs)
  then show ?case
    by (cases "rm r") (simp_all add: purge_one_metrics Inc_def names_distinct)
qed

lemma purge_all_failed:
  "metrics (purge_all rm rs p) (Name purgeFailed) =
     metrics p (Name purgeFailed) + length (filter (\<lambda>r. rm r \<noteq> None) rs)"
proof (induction rs arbitrary: p)
  case Nil
  then show ?case by simp
next
  case (Cons r rs)
  have d: "Name purgeFailed \<noteq> Name purgeSuccess" using names_distinct by simp
  from Cons show ?case
    by (cases "rm r") (simp_all add: purge_one_metrics Inc_def d)
qed

text \<open>
  C9. \<open>purgeSuccess\<close> and \<open>purgeFailed\<close> are two counters with different names. Over a
  sweep the first grows by the number of orphans whose removal succeeded and the second
  by the number whose removal failed, so together by the number of orphans: every orphan
  is attempted, whatever the outcome of the attempts before it. A removal that fails
  adds 1 to \<open>purgeFailed\<close> and changes no other counter and not the materialized set; a
  removal that succeeds adds 1 to \<open>purgeSuccess\<close> and changes no other counter.
\<close>

theorem purge_counters_separate:
  "Name purgeSuccess \<noteq> Name purgeFailed \<and>
   metrics (sweep rm s mat m) (Name purgeSuccess) =
     m (Name purgeSuccess) + length (filter (\<lambda>r. rm r = None) (orphans s mat)) \<and>
   metrics (sweep rm s mat m) (Name purgeFailed) =
     m (Name purgeFailed) + length (filter (\<lambda>r. rm r \<noteq> None) (orphans s mat)) \<and>
   (metrics (sweep rm s mat m) (Name purgeSuccess) - m (Name purgeSuccess)) +
     (metrics (sweep rm s mat m) (Name purgeFailed) - m (Name purgeFailed)) = length (orphans s mat) \<and>
   (rm r = Some e \<longrightarrow>
      metrics (purge_one rm r p) = (metrics p)(Name purgeFailed := metrics p (Name purgeFailed) + 1) \<and>
      materialized (purge_one rm r p) = materialized p) \<and>
   (rm r = None \<longrightarrow>
      metrics (purge_one rm r p) = (metrics p)(Name purgeSuccess := metrics p (Name purgeSuccess) + 1))"
proof -
  have s: "metrics (sweep rm s mat m) (Name purgeSuccess) =
     m (Name purgeSuccess) + length (filter (\<lambda>r. rm r = None) (orphans s mat))"
    by (simp add: sweep_def purge_all_success)
  have f: "metrics (sweep rm s mat m) (Name purgeFailed) =
     m (Name purgeFailed) + length (filter (\<lambda>r. rm r \<noteq> None) (orphans s mat))"
    by (simp add: sweep_def purge_all_failed)
  have t: "length (filter (\<lambda>r. rm r = None) (orphans s mat)) +
           length (filter (\<lambda>r. rm r \<noteq> None) (orphans s mat)) = length (orphans s mat)"
    using sum_length_filter_compl[of "\<lambda>r. rm r = None" "orphans s mat"] by simp
  have one: "rm r = Some e \<longrightarrow>
      metrics (purge_one rm r p) = (metrics p)(Name purgeFailed := metrics p (Name purgeFailed) + 1) \<and>
      materialized (purge_one rm r p) = materialized p"
    by (simp add: purge_one_def Inc_def)
  have two: "rm r = None \<longrightarrow>
      metrics (purge_one rm r p) = (metrics p)(Name purgeSuccess := metrics p (Name purgeSuccess) + 1)"
    by (simp add: purge_one_def Inc_def)
  from s f t have sum: "(metrics (sweep rm s mat m) (Name purgeSuccess) - m (Name purgeSuccess)) +
     (metrics (sweep rm s mat m) (Name purgeFailed) - m (Name purgeFailed)) = length (orphans s mat)"
    by simp
  from names_distinct s f sum one two show ?thesis by blast
qed

theorem purge_counters_separate_witness:
  "example_remove 3 = Some ''permission denied'' \<and> example_remove 5 = None \<and>
   orphans example_sched [1, 3, 4, 5] = [3, 4, 5] \<and>
   metrics (sweep example_remove example_sched [1, 3, 4, 5] (\<lambda>c. 0)) (Name purgeSuccess) = 2 \<and>
   metrics (sweep example_remove example_sched [1, 3, 4, 5] (\<lambda>c. 0)) (Name purgeFailed) = 1 \<and>
   metrics (purge_one example_remove 3 \<lparr>materialized = [3], metrics = (\<lambda>c. 0), entries = Map.empty\<rparr>)
     = (\<lambda>c. 0)(Name purgeFailed := 1) \<and>
   materialized (purge_one example_remove 3 \<lparr>materialized = [3], metrics = (\<lambda>c. 0), entries = Map.empty\<rparr>)
     = [3] \<and>
   metrics (purge_one example_remove 5 \<lparr>materialized = [5], metrics = (\<lambda>c. 0), entries = Map.empty\<rparr>)
     = (\<lambda>c. 0)(Name purgeSuccess := 1)"
proof -
  let ?p3 = "\<lparr>materialized = [3], metrics = (\<lambda>c. 0), entries = Map.empty\<rparr>"
  let ?p5 = "\<lparr>materialized = [5], metrics = (\<lambda>c. 0), entries = Map.empty\<rparr>"
  have r3: "example_remove 3 = Some ''permission denied''" and r5: "example_remove 5 = None"
    by (simp_all add: example_remove_def)
  have o: "orphans example_sched [1, 3, 4, 5] = [3, 4, 5]"
    by (simp add: orphans_def tracked_def in_flight_def non_terminal_def
        example_sched_def example_repo_def example_job_def)
  note a = purge_counters_separate[of example_remove example_sched "[1, 3, 4, 5]" "\<lambda>c. 0" 3
      "''permission denied''" ?p3]
  note b = purge_counters_separate[of example_remove example_sched "[1, 3, 4, 5]" "\<lambda>c. 0" 5
      "''permission denied''" ?p5]
  from a o have c1: "metrics (sweep example_remove example_sched [1, 3, 4, 5] (\<lambda>c. 0)) (Name purgeSuccess) = 2"
    and c2: "metrics (sweep example_remove example_sched [1, 3, 4, 5] (\<lambda>c. 0)) (Name purgeFailed) = 1"
    by (simp_all add: example_remove_def)
  from a r3 have f3: "metrics (purge_one example_remove 3 ?p3) = (\<lambda>c. 0)(Name purgeFailed := 1)"
    and m3: "materialized (purge_one example_remove 3 ?p3) = [3]"
    by simp_all
  from b r5 have f5: "metrics (purge_one example_remove 5 ?p5) = (\<lambda>c. 0)(Name purgeSuccess := 1)"
    by simp
  from r3 r5 o c1 c2 f3 m3 f5 show ?thesis by blast
qed


end
